theory Spec2Isabelle
  imports Main "HOL-Library.Sublist"
begin

section \<open>The output sink and Go errors\<close>

text \<open>
  A Go byte slice is a list of bytes; \<open>string\<close> is \<open>char list\<close> and a \<open>char\<close> is a
  byte. Where the source tells a nil slice from an empty one (the result of the rewrite
  hook), the slice is a \<open>bytes option\<close> and \<open>None\<close> is nil.
\<close>

type_synonym bytes = string

text \<open>
  Go errors are values. \<open>fmt.Errorf("ctx: %w", err)\<close> wraps an error under a message,
  \<open>fmt.Errorf("msg")\<close> and \<open>errors.New\<close> make a fresh one.
\<close>

datatype error = Err string | Wrap string error

text \<open>
  The \<open>io.Writer\<close> the archive is written to. \<open>out\<close> holds every byte it has accepted so
  far. \<open>faults\<close> scripts its next calls of \<open>Write\<close>: each call consumes the head; \<open>None\<close>
  accepts the whole slice, \<open>Some (n, e)\<close> accepts only the first \<open>n\<close> bytes and returns
  the error \<open>e\<close>; once the script is used up every call succeeds. The source
  ignores the byte count \<open>Write\<close> returns, so only the error is returned here.
\<close>

record sink =
  out :: bytes
  faults :: "(nat \<times> error) option list"

definition Write :: "sink \<Rightarrow> bytes \<Rightarrow> error option \<times> sink" where
  "Write s p =
     (case faults s of
        [] \<Rightarrow> (None, s\<lparr>out := out s @ p\<rparr>)
      | None # fs \<Rightarrow> (None, s\<lparr>out := out s @ p, faults := fs\<rparr>)
      | Some (n, e) # fs \<Rightarrow> (Some e, s\<lparr>out := out s @ take n p, faults := fs\<rparr>))"

section \<open>writers.go\<close>

text \<open>The creator metadata; the source reads its \<open>Name\<close> and \<open>Version\<close>.\<close>

record Creator =
  Name :: string
  Version :: string

text \<open>
  \<open>HarWriter\<close>. Its \<open>writer\<close> field points to the sink, which the caller owns as well:
  the sink is threaded through the operations next to the writer's own two flags. The
  mutex is held for the whole of each operation, so one operation is one step here.
\<close>

record HarWriter =
  first :: bool
  closed :: bool



definition separator :: bytes where
  "separator = '','' @ [CHR 0x0A]"

definition postamble :: bytes where
  "postamble = [CHR 0x0A] @ '']}}''"


definition WriteEntry :: "HarWriter \<Rightarrow> bytes \<Rightarrow> sink \<Rightarrow> error option \<times> HarWriter \<times> sink" where
  "WriteEntry w entry s =
     (if closed w then (Some (Err ''HarWriter already closed''), w, s)
      else
        (case (if \<not> first w then Write s separator else (None, s)) of
           (Some e, s1) \<Rightarrow> (Some (Wrap ''writing har entry'' e), w, s1)
         | (None, s1) \<Rightarrow>
             (let w1 = w\<lparr>first := False\<rparr> in
              case Write s1 entry of
                (Some e, s2) \<Rightarrow> (Some (Wrap ''writing har entry'' e), w1, s2)
              | (None, s2) \<Rightarrow> (None, w1, s2))))"

definition Close :: "HarWriter \<Rightarrow> sink \<Rightarrow> error option \<times> HarWriter \<times> sink" where
  "Close w s =
     (if closed w then (Some (Err ''HarWriter already closed''), w, s)
      else
        (let w1 = w\<lparr>closed := True\<rparr> in
         case Write s postamble of
           (Some e, s1) \<Rightarrow> (Some (Wrap ''closing har writer'' e), w1, s1)
         | (None, s1) \<Rightarrow> (None, w1, s1)))"

text \<open>\<open>HarNDWriter.WriteEntry\<close>: the entry, then a newline; no flags.\<close>

definition ND_WriteEntry :: "bytes \<Rightarrow> sink \<Rightarrow> error option \<times> sink" where
  "ND_WriteEntry entry s =
     (case Write s entry of
        (Some e, s1) \<Rightarrow> (Some e, s1)
      | (None, s1) \<Rightarrow> Write s1 [CHR 0x0A])"

section \<open>The parts of Go's standard library the source calls\<close>

text \<open>
  These follow the documented behaviour of Go's \<open>net/http\<close>, \<open>net/url\<close>, \<open>mime\<close>,
  \<open>io\<close>, \<open>time\<close> and \<open>encoding/base64\<close>; they are not code of the repository. What is
  left open is a field of \<open>stdlib\<close> below.
\<close>

subsection \<open>Streams\<close>

text \<open>
  An \<open>io.ReadCloser\<close>: the bytes it still has to deliver and the error, if any, that
  ends it in place of EOF. \<open>io.ReadAll\<close> returns the bytes with a nil error, or the
  error; either way the stream is left drained.
\<close>

record body =
  data :: bytes
  rerr :: "error option"

definition ReadAll :: "body \<Rightarrow> error + bytes" where
  "ReadAll b = (case rerr b of None \<Rightarrow> Inr (data b) | Some e \<Rightarrow> Inl e)"

definition drained :: "body \<Rightarrow> body" where
  "drained b = b\<lparr>data := []\<rparr>"

text \<open>\<open>io.NopCloser(bytes.NewBuffer(bs))\<close>\<close>

definition NewBuffer :: "bytes \<Rightarrow> body" where
  "NewBuffer bs = \<lparr>data = bs, rerr = None\<rparr>"

subsection \<open>Headers and form values\<close>

text \<open>
  \<open>http.Header\<close> and \<open>url.Values\<close> are \<open>map[string][]string\<close>: an association list
  with distinct keys. Go ranges over a map in an unspecified order; ranging is modelled
  in list order, and the claims about what a range collects are stated up to order.
  Header keys are in canonical form, as the methods of \<open>http.Header\<close> keep them.
\<close>

type_synonym Values = "(string \<times> string list) list"

definition Get :: "Values \<Rightarrow> string \<Rightarrow> string" where
  "Get h k = (case map_of h k of Some (v # _) \<Rightarrow> v | _ \<Rightarrow> [])"

text \<open>\<open>m[key] = append(m[key], value)\<close>\<close>

fun Add :: "Values \<Rightarrow> string \<Rightarrow> string \<Rightarrow> Values" where
  "Add [] k v = [(k, [v])]"
| "Add ((k', vs) # m) k v = (if k' = k then (k', vs @ [v]) # m else (k', vs) # Add m k v)"

subsection \<open>mime.ParseMediaType\<close>

definition isSpace :: "char \<Rightarrow> bool" where
  "isSpace c \<longleftrightarrow> c \<in> set [CHR 0x09, CHR 0x0A, CHR 0x0B, CHR 0x0C, CHR 0x0D, CHR 0x20]"

definition TrimSpace :: "string \<Rightarrow> string" where
  "TrimSpace s = rev (dropWhile isSpace (rev (dropWhile isSpace s)))"

definition toLower :: "char \<Rightarrow> char" where
  "toLower c =
     (if (0x41::nat) \<le> of_char c \<and> of_char c \<le> (0x5A::nat) then char_of (of_char c + (32::nat)) else c)"

definition isTSpecial :: "char \<Rightarrow> bool" where
  "isTSpecial c \<longleftrightarrow> c \<in> set (''()<>@,;:'' @ [CHR 0x5C, CHR 0x22] @ ''/[]?='')"

definition isTokenChar :: "char \<Rightarrow> bool" where
  "isTokenChar c \<longleftrightarrow> (0x20::nat) < of_char c \<and> of_char c < (0x7f::nat) \<and> \<not> isTSpecial c"

definition consumeToken :: "string \<Rightarrow> string \<times> string" where
  "consumeToken v = (takeWhile isTokenChar v, dropWhile isTokenChar v)"

definition checkMediaTypeDisposition :: "string \<Rightarrow> error option" where
  "checkMediaTypeDisposition s =
     (case consumeToken s of (typ, rest) \<Rightarrow>
        if typ = [] then Some (Err ''mime: no media type'')
        else if rest = [] then None
        else if hd rest \<noteq> CHR ''/'' then Some (Err ''mime: expected slash after first token'')
        else (case consumeToken (tl rest) of (subtype, rest') \<Rightarrow>
          if subtype = [] then Some (Err ''mime: expected token after slash'')
          else if rest' \<noteq> [] then Some (Err ''mime: unexpected content after media subtype'')
          else None))"

text \<open>
  The media type is the text before the first \<open>;\<close>, lower-cased and trimmed, and must be
  \<open>token\<close> or \<open>token/token\<close>. The parameters after it are parsed by \<open>params\<close> (a field of
  \<open>stdlib\<close>), which is only consulted when there is something after the media type;
  the source discards the parameters and keeps the error. Case mapping and trimming
  are those of ASCII.
\<close>

definition ParseMediaType :: "(string \<Rightarrow> error option) \<Rightarrow> string \<Rightarrow> error + string" where
  "ParseMediaType params v =
     (let base = takeWhile (\<lambda>c. c \<noteq> CHR '';'') v;
          mediatype = TrimSpace (map toLower base)
      in case checkMediaTypeDisposition mediatype of
           Some e \<Rightarrow> Inl e
         | None \<Rightarrow>
             (let rest = drop (length base) v
              in if rest = [] then Inr mediatype
                 else (case params rest of Some e \<Rightarrow> Inl e | None \<Rightarrow> Inr mediatype)))"

subsection \<open>url.ParseQuery\<close>

definition ishex :: "char \<Rightarrow> bool" where
  "ishex c \<longleftrightarrow> c \<in> set ''0123456789abcdefABCDEF''"

definition unhex :: "char \<Rightarrow> nat" where
  "unhex c =
     (let n = of_char c in
      if (0x30::nat) \<le> n \<and> n \<le> 0x39 then n - 0x30
      else if (0x61::nat) \<le> n \<and> n \<le> 0x66 then n - 0x61 + 10
      else if (0x41::nat) \<le> n \<and> n \<le> 0x46 then n - 0x41 + 10
      else 0)"

text \<open>
  \<open>url.QueryUnescape\<close>: \<open>%XY\<close> becomes the byte \<open>0xXY\<close>, \<open>+\<close> becomes a space; a \<open>%\<close>
  that is not followed by two hexadecimal digits is an \<open>EscapeError\<close> carrying at most
  three bytes from the \<open>%\<close> on.
\<close>

fun QueryUnescape :: "string \<Rightarrow> error + string" where
  "QueryUnescape [] = Inr []"
| "QueryUnescape (c # cs) =
     (if c = CHR ''%'' then
        (case cs of
           h1 # h2 # rest \<Rightarrow>
             if ishex h1 \<and> ishex h2 then
               (case QueryUnescape rest of
                  Inl e \<Rightarrow> Inl e
                | Inr t \<Rightarrow> Inr (char_of (unhex h1 * 16 + unhex h2) # t))
             else Inl (Err (''invalid URL escape '' @ take 3 (c # cs)))
         | _ \<Rightarrow> Inl (Err (''invalid URL escape '' @ take 3 (c # cs))))
      else
        (case QueryUnescape cs of
           Inl e \<Rightarrow> Inl e
         | Inr t \<Rightarrow> Inr ((if c = CHR ''+'' then CHR '' '' else c) # t)))"

text \<open>\<open>strings.Cut(s, sep)\<close> for a separator of one byte: the text before and after its first occurrence.\<close>

definition Cut :: "string \<Rightarrow> char \<Rightarrow> string \<times> string" where
  "Cut s sep = (takeWhile (\<lambda>c. c \<noteq> sep) s, drop 1 (dropWhile (\<lambda>c. c \<noteq> sep) s))"

text \<open>\<open>strings.Split(s, sep)\<close> on a non-empty string, for a separator of one byte.\<close>

fun split_on :: "char \<Rightarrow> string \<Rightarrow> string \<Rightarrow> string list" where
  "split_on sep acc [] = [rev acc]"
| "split_on sep acc (c # cs) =
     (if c = sep then rev acc # split_on sep [] cs else split_on sep (c # acc) cs)"

text \<open>
  One turn of the loop of \<open>url.parseQuery\<close> on the piece \<open>key\<close> cut off at an \<open>&\<close>: the
  map and the error so far go in and come out. A piece holding \<open>;\<close> sets the error, an
  empty piece is skipped, a piece that does not unescape sets the error unless one is
  set already.
\<close>

definition parseQuery_step :: "Values \<times> error option \<Rightarrow> string \<Rightarrow> Values \<times> error option" where
  "parseQuery_step st key =
     (case st of (m, err) \<Rightarrow>
        if CHR '';'' \<in> set key then (m, Some (Err ''invalid semicolon separator in query''))
        else if key = [] then (m, err)
        else (case Cut key (CHR ''='') of (k, v) \<Rightarrow>
          (case QueryUnescape k of
             Inl e1 \<Rightarrow> (m, if err = None then Some e1 else err)
           | Inr k' \<Rightarrow>
               (case QueryUnescape v of
                  Inl e1 \<Rightarrow> (m, if err = None then Some e1 else err)
                | Inr v' \<Rightarrow> (Add m k' v', err)))))"

text \<open>\<open>url.ParseQuery\<close>: the values collected, always non-nil, and the first error met.\<close>

definition ParseQuery :: "string \<Rightarrow> Values \<times> error option" where
  "ParseQuery query =
     (if query = [] then ([], None)
      else foldl parseQuery_step ([], None) (split_on (CHR ''&'') [] query))"

subsection \<open>base64.StdEncoding.EncodeToString\<close>

definition b64chars :: string where
  "b64chars = ''ABCDEFGHIJKLMNOPQRSTUVWXYZabcdefghijklmnopqrstuvwxyz0123456789+/''"

definition b64 :: "nat \<Rightarrow> char" where
  "b64 n = b64chars ! (n mod 64)"

fun EncodeToString :: "bytes \<Rightarrow> string" where
  "EncodeToString [] = []"
| "EncodeToString [a] =
     (let n = of_char a * 65536
      in [b64 (n div 262144), b64 (n div 4096), CHR ''='', CHR ''=''])"
| "EncodeToString [a, b] =
     (let n = of_char a * 65536 + of_char b * 256
      in [b64 (n div 262144), b64 (n div 4096), b64 (n div 64), CHR ''=''])"
| "EncodeToString (a # b # c # rest) =
     (let n = of_char a * 65536 + of_char b * 256 + of_char c
      in [b64 (n div 262144), b64 (n div 4096), b64 (n div 64), b64 n] @ EncodeToString rest)"

subsection \<open>time.Time and time.Duration\<close>

text \<open>
  An instant is its distance in nanoseconds from the zero \<open>Time\<close>; a \<open>Duration\<close> is an
  \<open>int64\<close> of nanoseconds, and \<open>Time.Sub\<close> saturates at its two ends. The wall and the
  monotonic reading of an instant are not told apart.
\<close>

type_synonym Time = int
type_synonym Duration = int

definition IsZero :: "Time \<Rightarrow> bool" where
  "IsZero t \<longleftrightarrow> t = 0"

definition minDuration :: Duration where
  "minDuration = - (2 ^ 63)"

definition maxDuration :: Duration where
  "maxDuration = 2 ^ 63 - 1"

definition Sub :: "Time \<Rightarrow> Time \<Rightarrow> Duration" where
  "Sub t u =
     (if t - u < minDuration then minDuration
      else if maxDuration < t - u then maxDuration
      else t - u)"

subsection \<open>http.Request and http.Response\<close>

record URL =
  url_String :: string \<comment> \<open>what \<open>URL.String()\<close> returns\<close>
  RawQuery :: string

record FileHeader =
  Filename :: string
  fh_Header :: Values

record MultipartForm =
  mf_Value :: Values
  mf_File :: "(string \<times> FileHeader list) list"

text \<open>
  The fields of \<open>http.Request\<close> the source and \<open>ParseForm\<close> touch. \<open>Body\<close> and the three
  forms may be nil. \<open>GetBody\<close> is a function value that may be nil; when it is not,
  calling it returns a new reader of the body or an error. The request's context,
  which carries the trace hooks, is not a field here: the transport is handed the
  tracer next to the request. \<open>URL\<close> is taken to be set, as it is on every request a
  client sends.
\<close>

record http_Request =
  Method :: string
  URL :: URL
  Proto :: string
  Header :: Values
  Body :: "body option"
  GetBody :: "(error + body) option"
  PostForm :: "Values option"
  Form :: "Values option"
  MultipartForm :: "MultipartForm option"

text \<open>
  The fields of \<open>http.Response\<close> the source reads. \<open>Body\<close> is taken to be set, as the
  contract of \<open>http.RoundTripper\<close> has it on every response returned without an error.
\<close>

record http_Response =
  StatusCode :: int
  Status :: string
  resp_Proto :: string
  resp_Header :: Values
  resp_Body :: body
  ContentLength :: int

record http_Cookie =
  c_Name :: string
  c_Value :: string
  c_Path :: string
  c_Domain :: string
  c_Expires :: Time
  HttpOnly :: bool
  c_Secure :: bool

subsection \<open>Request.ParseForm\<close>

definition maxFormSize :: nat where
  "maxFormSize = 10 * 2 ^ 20"

text \<open>\<open>io.ReadAll(io.LimitReader(b, n))\<close>: the error of the stream is only met when fewer than \<open>n\<close> bytes come before it.\<close>

definition ReadAllLimited :: "nat \<Rightarrow> body \<Rightarrow> error + bytes" where
  "ReadAllLimited n b = (if n \<le> length (data b) then Inr (take n (data b)) else ReadAll b)"

definition copyValues :: "Values \<Rightarrow> Values \<Rightarrow> Values" where
  "copyValues dst src = foldl (\<lambda>m (k, vs). foldl (\<lambda>m' v. Add m' k v) m vs) dst src"

text \<open>
  \<open>parsePostForm\<close>: the values (nil when nothing was parsed), the error, and the body as
  it is left. A body of media type \<open>application/x-www-form-urlencoded\<close> is read, up to
  10 MiB, and parsed as a query. Any other media type leaves the values nil and the
  body unread; the multipart case belongs to \<open>ParseMultipartForm\<close>. A header whose
  media type does not parse gives the error and no values.
\<close>

definition parsePostForm ::
  "(string \<Rightarrow> error option) \<Rightarrow> http_Request \<Rightarrow> Values option \<times> error option \<times> body option" where
  "parsePostForm params r =
     (case Body r of
        None \<Rightarrow> (None, None, None)
      | Some b \<Rightarrow>
          (let ct0 = Get (Header r) ''Content-Type'';
               ct1 = (if ct0 = [] then ''application/octet-stream'' else ct0)
           in case ParseMediaType params ct1 of
                Inl e \<Rightarrow> (None, Some e, Some b)
              | Inr ct \<Rightarrow>
                  if ct = ''application/x-www-form-urlencoded'' then
                    (case ReadAllLimited (maxFormSize + 1) b of
                       Inl e \<Rightarrow> (None, Some e, Some (drained b))
                     | Inr bs \<Rightarrow>
                         if maxFormSize < length bs
                         then (None, Some (Err ''http: POST too large''), Some (drained b))
                         else (case ParseQuery bs of (vs, e) \<Rightarrow> (Some vs, e, Some (drained b))))
                  else (None, None, Some b)))"

text \<open>
  \<open>Request.ParseForm\<close>: fills \<open>PostForm\<close> (from the body, for POST, PUT and PATCH only)
  and \<open>Form\<close> (from the body and the URL's query) when they are nil, and returns the
  first error. Reading the body drains it.
\<close>

definition ParseForm :: "(string \<Rightarrow> error option) \<Rightarrow> http_Request \<Rightarrow> error option \<times> http_Request" where
  "ParseForm params r =
     (let (r1, err1) =
            (if PostForm r = None then
               (if Method r = ''POST'' \<or> Method r = ''PUT'' \<or> Method r = ''PATCH'' then
                  (case parsePostForm params r of
                     (vs, e, body') \<Rightarrow>
                       (r\<lparr>PostForm := Some (case vs of None \<Rightarrow> [] | Some v \<Rightarrow> v),
                          Body := body'\<rparr>, e))
                else (r\<lparr>PostForm := Some []\<rparr>, None))
             else (r, None))
      in if Form r1 = None then
           (case ParseQuery (RawQuery (URL r1)) of
              (newValues, e) \<Rightarrow>
                (let err2 = (if err1 = None then e else err1);
                     pf = (case PostForm r1 of None \<Rightarrow> [] | Some v \<Rightarrow> v)
                 in (err2, r1\<lparr>Form := Some (if pf = [] then newValues
                                              else copyValues (copyValues [] pf) newValues)\<rparr>)))
         else (err1, r1))"

section \<open>The archive's data shapes\<close>

text \<open>
  The declarations of \<open>Entry\<close>, \<open>Request\<close>, \<open>Response\<close>, \<open>PostData\<close>, \<open>Param\<close>, \<open>NVP\<close>,
  \<open>Cookie\<close>, \<open>Content\<close> and \<open>Timings\<close> are not among the sources at hand; the records
  below have the fields \<open>round_tripper.go\<close> assigns, under the names it uses (with the
  type's name in front where two types share a field name). A pointer field that may
  be nil is an \<open>option\<close>.
\<close>

record NVP =
  NVP_Name :: string
  NVP_Value :: string

record Param =
  Param_Name :: string
  Param_Value :: string
  FileName :: string
  ContentType :: string

record Cookie =
  Cookie_Name :: string
  Cookie_Value :: string
  Path :: string
  Domain :: string
  Expires :: Time
  HTTPOnly :: bool
  Secure :: bool

record PostData =
  PostData_MimeType :: string
  Params :: "Param list"
  PostData_Text :: string

record Content =
  Size :: int
  Compression :: int
  MimeType :: string
  Text :: string
  Encoding :: string

record Timings =
  Blocked :: Duration
  DNS :: Duration
  Connect :: Duration
  Send :: Duration
  Wait :: Duration
  Receive :: Duration
  SSL :: Duration

record Request =
  Request_Method :: string
  Request_URL :: string
  Request_HTTPVersion :: string
  Request_Cookies :: "Cookie list"
  Request_Headers :: "NVP list"
  QueryString :: "NVP list"
  Request_PostData :: "PostData option"
  Request_HeadersSize :: int
  Request_BodySize :: int

record Response =
  Response_Status :: int
  StatusText :: string
  Response_HTTPVersion :: string
  Response_Cookies :: "Cookie list"
  Response_Headers :: "NVP list"
  RedirectURL :: string
  Response_HeadersSize :: int
  Response_BodySize :: int
  Response_Content :: "Content option"

record Entry =
  StartedDateTime :: Time
  Entry_Time :: Duration
  Entry_Request :: "Request option"
  Entry_Response :: "Response option"
  Entry_Timings :: "Timings option"

text \<open>\<open>&Entry{}\<close>\<close>

definition zeroEntry :: Entry where
  "zeroEntry = \<lparr>StartedDateTime = 0, Entry_Time = 0, Entry_Request = None,
                 Entry_Response = None, Entry_Timings = None\<rparr>"

section \<open>The timing tracer\<close>

text \<open>The fields of \<open>clientTracer\<close> that \<open>postRoundTrip\<close> reads and writes.\<close>

record clientTracer =
  startAt :: Time
  connStart :: Time
  connObtained :: Time
  dnsStart :: Time
  dnsEnd :: Time
  tlsHandshakeStart :: Time
  tlsHandshakeEnd :: Time
  writeRequest :: Time
  firstResponseByte :: Time
  endAt :: Time

text \<open>
  Modelled from the spec: \<open>newClientTracer\<close>, whose file is not among the sources at
  hand. The spec has the tracer record the request's start and then one timestamp
  for each connection event the transport reports; a fresh tracer holds the start and
  a zero \<open>Time\<close> everywhere else. The events are the transport's to report: the
  transport below takes the tracer and returns it as its hooks have left it.
\<close>

definition newClientTracer :: "Time \<Rightarrow> clientTracer" where
  "newClientTracer now =
     \<lparr>startAt = now, connStart = 0, connObtained = 0, dnsStart = 0, dnsEnd = 0,
      tlsHandshakeStart = 0, tlsHandshakeEnd = 0, writeRequest = 0,
      firstResponseByte = 0, endAt = 0\<rparr>"

section \<open>round_tripper.go\<close>

text \<open>
  The inner transport: it is handed the request and the tracer, and returns the
  response or an error, and the tracer as its hooks have left it.
\<close>

type_synonym transport = "http_Request \<Rightarrow> clientTracer \<Rightarrow> (error + http_Response) \<times> clientTracer"

text \<open>The rewrite hook; a nil \<open>json.RawMessage\<close> is \<open>None\<close>.\<close>

type_synonym rewrite = "http_Request \<Rightarrow> http_Response \<Rightarrow> bytes option \<Rightarrow> bytes option"

text \<open>\<open>Options\<close> as the caller passes them to \<open>New\<close>: both fields may be nil.\<close>

record Options =
  Rewrite :: "rewrite option"
  Creator :: "Creator option"

definition DefaultCreator :: Creator where
  "DefaultCreator = \<lparr>Name = ''github.com/aidansteele/har'', Version = ''0.1''\<rparr>"

definition DefaultRewrite :: rewrite where
  "DefaultRewrite request response entry = entry"


text \<open>
  What the source takes from outside the repository and is left open here:
  the parameter parser of \<open>mime.ParseMediaType\<close>, \<open>Request.ParseMultipartForm\<close>, the
  cookie parsers \<open>Request.Cookies\<close> and \<open>Response.Cookies\<close>, \<open>json.Marshal\<close> on a creator
  and on an entry (a nil slice, \<open>None\<close>, when it fails), \<open>http.DefaultTransport\<close>, and
  the two readings of the clock in one exchange.
\<close>

record stdlib =
  mediaParams :: "string \<Rightarrow> error option"
  ParseMultipartForm :: "http_Request \<Rightarrow> error + MultipartForm"
  request_Cookies :: "http_Request \<Rightarrow> http_Cookie list"
  response_Cookies :: "http_Response \<Rightarrow> http_Cookie list"
  Marshal_Creator :: "Creator \<Rightarrow> bytes"
  Marshal_Entry :: "Entry \<Rightarrow> bytes option"
  DefaultTransport :: transport
  startNow :: Time
  endNow :: Time

text \<open>
  \<open>RoundTripper\<close>. Its fields are unexported and \<open>New\<close> is its only constructor, so
  \<open>opts.Rewrite\<close> and \<open>opts.Creator\<close> are the non-nil values \<open>New\<close> settled on. \<open>writer\<close>
  points to the sink, which is threaded through the operations as for \<open>HarWriter\<close>.
\<close>

record RoundTripper =
  inner :: transport
  opts_Rewrite :: rewrite
  opts_Creator :: Creator
  rt_first :: bool



text \<open>\<open>RoundTripper.Close\<close>: no flag is read or written.\<close>

definition RoundTripper_Close :: "RoundTripper \<Rightarrow> sink \<Rightarrow> error option \<times> RoundTripper \<times> sink" where
  "RoundTripper_Close rt s =
     (case Write s postamble of
        (Some e, s1) \<Rightarrow> (Some (Wrap ''closing har writer'' e), rt, s1)
      | (None, s1) \<Rightarrow> (None, rt, s1))"

definition writeEntry ::
  "stdlib \<Rightarrow> RoundTripper \<Rightarrow> http_Request \<Rightarrow> http_Response \<Rightarrow> Entry \<Rightarrow> sink
     \<Rightarrow> error option \<times> RoundTripper \<times> sink" where
  "writeEntry env rt request response entry s =
     (case opts_Rewrite rt request response (Marshal_Entry env entry) of
        None \<Rightarrow> (None, rt, s)
      | Some entryJson \<Rightarrow>
          (case (if \<not> rt_first rt then Write s separator else (None, s)) of
             (Some e, s1) \<Rightarrow> (Some (Wrap ''writing har entry'' e), rt, s1)
           | (None, s1) \<Rightarrow>
               (let rt1 = rt\<lparr>rt_first := False\<rparr> in
                case Write s1 entryJson of
                  (Some e, s2) \<Rightarrow> (Some (Wrap ''writing har entry'' e), rt1, s2)
                | (None, s2) \<Rightarrow> (None, rt1, s2))))"

definition toHARCookies :: "http_Cookie list \<Rightarrow> Cookie list" where
  "toHARCookies cookies =
     map (\<lambda>cookie. \<lparr>Cookie_Name = c_Name cookie, Cookie_Value = c_Value cookie,
                      Path = c_Path cookie, Domain = c_Domain cookie,
                      Expires = c_Expires cookie, HTTPOnly = HttpOnly cookie,
                      Secure = c_Secure cookie\<rparr>) cookies"

definition toHARNVP :: "Values \<Rightarrow> NVP list" where
  "toHARNVP vs = concat (map (\<lambda>(k, v). map (\<lambda>s. \<lparr>NVP_Name = k, NVP_Value = s\<rparr>) v) vs)"

text \<open>The two loops of \<open>preRoundTrip\<close> that turn form values, and form files, into \<open>Param\<close>s.\<close>

definition valueParams :: "Values \<Rightarrow> Param list" where
  "valueParams vs =
     concat (map (\<lambda>(k, v). map (\<lambda>s. \<lparr>Param_Name = k, Param_Value = s, FileName = [],
                                           ContentType = []\<rparr>) v) vs)"

definition fileParams :: "(string \<times> FileHeader list) list \<Rightarrow> Param list" where
  "fileParams fs =
     concat (map (\<lambda>(k, v). map (\<lambda>s. \<lparr>Param_Name = k, Param_Value = [], FileName = Filename s,
                                           ContentType = Get (fh_Header s) ''Content-Type''\<rparr>) v) fs)"

text \<open>
  What a call ends in: a panic, an error returned, or a normal return. \<open>preRoundTrip\<close>
  changes the request it is given (its body and its parsed forms) and the entry; on a
  normal return both come back.
\<close>

datatype 'a res = Panicked | Failed error | Done 'a

text \<open>
  The first half of \<open>preRoundTrip\<close>, down to the end of \<open>if r.Body != nil\<close>: the request as
  changed, \<open>bodySize\<close> and \<open>postData\<close>. Calling a nil \<open>GetBody\<close> panics.
\<close>

definition captureBody :: "stdlib \<Rightarrow> http_Request \<Rightarrow> (http_Request \<times> int \<times> PostData option) res" where
  "captureBody env r =
     (case Body r of
        None \<Rightarrow> Done (r, - 1, None)
      | Some _ \<Rightarrow>
          (case GetBody r of
             None \<Rightarrow> Panicked
           | Some (Inl e) \<Rightarrow> Failed (Wrap ''getting body'' e)
           | Some (Inr reqBody) \<Rightarrow>
               (case ReadAll reqBody of
                  Inl e \<Rightarrow> Failed (Wrap ''reading request body'' e)
                | Inr reqBodyBytes \<Rightarrow>
                    (let bodySize = int (length reqBodyBytes);
                         mimeType = Get (Header r) ''Content-Type'';
                         postData = \<lparr>PostData_MimeType = mimeType, Params = [],
                                      PostData_Text = reqBodyBytes\<rparr>
                     in case ParseMediaType (mediaParams env) mimeType of
                          Inl e \<Rightarrow> Failed (Wrap ''parsing request Content-Type'' e)
                        | Inr mediaType \<Rightarrow>
                            if mediaType = ''application/x-www-form-urlencoded'' then
                              (case ParseForm (mediaParams env) r of
                                 (Some e, r1) \<Rightarrow>
                                   Failed (Wrap ''parsing urlencoded form in request body'' e)
                               | (None, r1) \<Rightarrow>
                                   (let r2 = r1\<lparr>Body := Some (NewBuffer reqBodyBytes)\<rparr>;
                                        pf = (case PostForm r2 of None \<Rightarrow> [] | Some v \<Rightarrow> v)
                                    in Done (r2, bodySize,
                                         Some (postData\<lparr>Params := Params postData @ valueParams pf\<rparr>))))
                            else if mediaType = ''multipart/form-data'' then
                              (case ParseMultipartForm env r of
                                 Inl e \<Rightarrow>
                                   Failed (Wrap ''parsing multipart form in request body'' e)
                               | Inr mf \<Rightarrow>
                                   (let r2 = r\<lparr>MultipartForm := Some mf,
                                               Body := Some (NewBuffer reqBodyBytes)\<rparr>
                                    in Done (r2, bodySize,
                                         Some (postData\<lparr>Params := Params postData
                                                 @ valueParams (mf_Value mf) @ fileParams (mf_File mf)\<rparr>))))
                            else Done (r, bodySize, Some postData)))))"

definition preRoundTrip :: "stdlib \<Rightarrow> http_Request \<Rightarrow> Entry \<Rightarrow> (http_Request \<times> Entry) res" where
  "preRoundTrip env r entry =
     (case captureBody env r of
        Panicked \<Rightarrow> Panicked
      | Failed e \<Rightarrow> Failed e
      | Done (r', bodySize, postData) \<Rightarrow>
          Done (r', entry\<lparr>Entry_Request := Some
            \<lparr>Request_Method = Method r',
             Request_URL = url_String (URL r'),
             Request_HTTPVersion = Proto r',
             Request_Cookies = toHARCookies (request_Cookies env r'),
             Request_Headers = toHARNVP (Header r'),
             QueryString = toHARNVP (fst (ParseQuery (RawQuery (URL r')))),
             Request_PostData = postData,
             Request_HeadersSize = - 1,
             Request_BodySize = bodySize\<rparr>\<rparr>))"

text \<open>The \<open>Timings\<close> that \<open>postRoundTrip\<close> builds from the tracer, \<open>endAt\<close> already set.\<close>

definition timingsOf :: "clientTracer \<Rightarrow> Timings" where
  "timingsOf trace =
     (let t0 = \<lparr>Blocked = Sub (connStart trace) (startAt trace),
                 DNS = - 1,
                 Connect = - 1,
                 Send = Sub (writeRequest trace) (connObtained trace),
                 Wait = Sub (firstResponseByte trace) (writeRequest trace),
                 Receive = Sub (endAt trace) (firstResponseByte trace),
                 SSL = - 1\<rparr>;
          t1 = (if \<not> IsZero (dnsStart trace)
                then t0\<lparr>DNS := Sub (dnsEnd trace) (dnsStart trace)\<rparr> else t0);
          t2 = (if \<not> IsZero (connStart trace)
                then t1\<lparr>Connect := Sub (connObtained trace) (connStart trace)\<rparr> else t1);
          t3 = (if \<not> IsZero (tlsHandshakeStart trace)
                then t2\<lparr>SSL := Sub (tlsHandshakeEnd trace) (tlsHandshakeStart trace)\<rparr> else t2)
      in t3)"

text \<open>
  \<open>postRoundTrip\<close> changes the response (its body), the entry and the tracer; all three
  come back next to the error. When reading the body fails the body is not replaced.
\<close>

definition postRoundTrip ::
  "stdlib \<Rightarrow> http_Response \<Rightarrow> Entry \<Rightarrow> clientTracer
     \<Rightarrow> error option \<times> http_Response \<times> Entry \<times> clientTracer" where
  "postRoundTrip env resp entry trace =
     (case ReadAll (resp_Body resp) of
        Inl e \<Rightarrow> (Some e, resp\<lparr>resp_Body := drained (resp_Body resp)\<rparr>, entry, trace)
      | Inr respBodyBytes \<Rightarrow>
          (let resp1 = resp\<lparr>resp_Body := NewBuffer respBodyBytes\<rparr>;
               mimeType = Get (resp_Header resp1) ''Content-Type''
           in case ParseMediaType (mediaParams env) mimeType of
                Inl e \<Rightarrow> (Some (Wrap ''parsing response Content-Type'' e), resp1, entry, trace)
              | Inr mediaType \<Rightarrow>
                  (let (text, encoding) =
                         (if prefix ''text/'' mediaType then (respBodyBytes, [])
                          else (EncodeToString respBodyBytes, ''base64''));
                       entry1 = entry\<lparr>Entry_Response := Some
                         \<lparr>Response_Status = StatusCode resp1,
                          StatusText = Status resp1,
                          Response_HTTPVersion = resp_Proto resp1,
                          Response_Cookies = toHARCookies (response_Cookies env resp1),
                          Response_Headers = toHARNVP (resp_Header resp1),
                          RedirectURL = Get (resp_Header resp1) ''Location'',
                          Response_HeadersSize = - 1,
                          Response_BodySize = ContentLength resp1,
                          Response_Content = Some
                            \<lparr>Size = ContentLength resp1, Compression = 0, MimeType = mimeType,
                             Text = text, Encoding = encoding\<rparr>\<rparr>\<rparr>;
                       trace1 = trace\<lparr>endAt := endNow env\<rparr>;
                       entry2 = entry1\<lparr>StartedDateTime := startAt trace1,
                                       Entry_Time := Sub (endAt trace1) (startAt trace1),
                                       Entry_Timings := Some (timingsOf trace1)\<rparr>
                   in (None, resp1, entry2, trace1))))"

text \<open>
  What the exchanges act on besides the \<open>RoundTripper\<close>'s own flag: the sink, and the
  requests that have been handed to the inner transport, in order.
\<close>

record world =
  w_sink :: sink
  sent :: "http_Request list"

text \<open>How \<open>RoundTrip\<close> ends: in a panic, or returning \<open>(response, err)\<close>, either of which may be nil.\<close>

datatype outcome = Panic | Return "http_Response option" "error option"

definition RoundTrip :: "stdlib \<Rightarrow> RoundTripper \<Rightarrow> http_Request \<Rightarrow> world \<Rightarrow> outcome \<times> RoundTripper \<times> world" where
  "RoundTrip env rt request w =
     (case preRoundTrip env request zeroEntry of
        Panicked \<Rightarrow> (Panic, rt, w)
      | Failed e \<Rightarrow> (Return None (Some e), rt, w)
      | Done (request1, entry) \<Rightarrow>
          (let trace = newClientTracer (startNow env);
               w1 = w\<lparr>sent := sent w @ [request1]\<rparr>
           in case inner rt request1 trace of
                (Inl e, trace1) \<Rightarrow> (Return None (Some e), rt, w1)
              | (Inr response, trace1) \<Rightarrow>
                  (case postRoundTrip env response entry trace1 of
                     (Some e, response1, entry1, trace2) \<Rightarrow>
                       (Return (Some response1) (Some e), rt, w1)
                   | (None, response1, entry1, trace2) \<Rightarrow>
                       (case writeEntry env rt request1 response1 entry1 (w_sink w1) of
                          (err, rt1, s1) \<Rightarrow>
                            (Return (Some response1) err, rt1, w1\<lparr>w_sink := s1\<rparr>)))))"

section \<open>Concrete inputs\<close>

text \<open>A sink that is empty and accepts every write, and one whose second write fails.\<close>

definition emptySink :: sink where
  "emptySink = \<lparr>out = [], faults = []\<rparr>"

text \<open>A response \<open>200 OK\<close> with the given \<open>Content-Type\<close> header (none when empty) and body.\<close>

definition response_of :: "string \<Rightarrow> body \<Rightarrow> http_Response" where
  "response_of ct b =
     \<lparr>StatusCode = 200, Status = ''200 OK'', resp_Proto = ''HTTP/1.1'',
      resp_Header = (if ct = [] then [] else [(''Content-Type'', [ct])]),
      resp_Body = b, ContentLength = int (length (data b))\<rparr>"

text \<open>
  Transports that report no connection event, as a transport other than \<open>http.Transport\<close>
  does: one that answers every request with a fixed response, one that fails.
\<close>

definition answering :: "http_Response \<Rightarrow> transport" where
  "answering resp request trace = (Inr resp, trace)"

definition failing :: "error \<Rightarrow> transport" where
  "failing e request trace = (Inl e, trace)"

definition testEnv :: stdlib where
  "testEnv =
     \<lparr>mediaParams = (\<lambda>rest. None),
      ParseMultipartForm = (\<lambda>r. Inl (Err ''multipart: NextPart: EOF'')),
      request_Cookies = (\<lambda>r. []),
      response_Cookies = (\<lambda>r. []),
      Marshal_Creator = (\<lambda>c. ''{\"name\":\"'' @ Name c @ ''\",\"version\":\"'' @ Version c @ ''\"}''),
      Marshal_Entry = (\<lambda>e. Some ''{}''),
      DefaultTransport = answering (response_of ''text/plain'' (NewBuffer ''hello'')),
      startNow = 1000,
      endNow = 2000\<rparr>"

definition testRT :: RoundTripper where
  "testRT = \<lparr>inner = DefaultTransport testEnv, opts_Rewrite = DefaultRewrite,
             opts_Creator = DefaultCreator, rt_first = True\<rparr>"

text \<open>A request with the given method, \<open>Content-Type\<close> header (none when empty) and body, whose \<open>GetBody\<close> replays the body.\<close>

definition request_of :: "string \<Rightarrow> string \<Rightarrow> bytes option \<Rightarrow> http_Request" where
  "request_of m ct b =
     \<lparr>Method = m,
      URL = \<lparr>url_String = ''https://example.com/'', RawQuery = []\<rparr>,
      Proto = ''HTTP/1.1'',
      Header = (if ct = [] then [] else [(''Content-Type'', [ct])]),
      Body = map_option NewBuffer b,
      GetBody = map_option (\<lambda>bs. Inr (NewBuffer bs)) b,
      PostForm = None, Form = None, MultipartForm = None\<rparr>"

definition emptyWorld :: world where
  "emptyWorld = \<lparr>w_sink = emptySink, sent = []\<rparr>"

text \<open>A rewrite hook that returns an empty slice that is not nil.\<close>

definition emptyRewrite :: rewrite where
  "emptyRewrite request response entry = Some []"

text \<open>A rewrite hook that suppresses every entry: it returns nil.\<close>

definition suppressRewrite :: rewrite where
  "suppressRewrite request response entry = None"

section \<open>JSON texts\<close>















section \<open>Properties\<close>

subsection \<open>Use after finalize\<close>

lemma Close_closed: "closed (fst (snd (Close w s)))"
  by (simp add: Close_def Let_def split: prod.splits option.splits)

text \<open>
  C2 (amended). Once \<open>HarWriter.Close\<close> has been called, whatever it returned, a second
  \<open>Close\<close> and any \<open>WriteEntry\<close> return the error \<open>HarWriter already closed\<close> and leave the
  writer and the sink as they were: nothing further is written. \<open>RoundTripper.Close\<close>
  keeps no such flag: every call of it writes the closing bytes and returns what the
  sink's \<open>Write\<close> returned, wrapped when it is an error.
\<close>

theorem HarWriter_rejects_use_after_Close:
  assumes "Close w s = (r, w1, s1)"
  shows "Close w1 s1 = (Some (Err ''HarWriter already closed''), w1, s1)
       \<and> WriteEntry w1 entry s1 = (Some (Err ''HarWriter already closed''), w1, s1)
       \<and> RoundTripper_Close rt s2 =
           (case Write s2 postamble of
              (e, s3) \<Rightarrow> (map_option (Wrap ''closing har writer'') e, rt, s3))"
proof -
  have "closed w1" using Close_closed [of w s] assms by simp
  then show ?thesis
    by (simp add: Close_def WriteEntry_def RoundTripper_Close_def split: prod.splits option.splits)
qed

theorem HarWriter_rejects_use_after_Close_witness:
  "Close \<lparr>first = True, closed = False\<rparr> emptySink
     = (None, \<lparr>first = True, closed = True\<rparr>, \<lparr>out = postamble, faults = []\<rparr>)
   \<and> Close \<lparr>first = True, closed = True\<rparr> \<lparr>out = postamble, faults = []\<rparr>
     = (Some (Err ''HarWriter already closed''), \<lparr>first = True, closed = True\<rparr>,
        \<lparr>out = postamble, faults = []\<rparr>)
   \<and> WriteEntry \<lparr>first = True, closed = True\<rparr> ''{}'' \<lparr>out = postamble, faults = []\<rparr>
     = (Some (Err ''HarWriter already closed''), \<lparr>first = True, closed = True\<rparr>,
        \<lparr>out = postamble, faults = []\<rparr>)"
proof -
  have h: "Close \<lparr>first = True, closed = False\<rparr> emptySink
     = (None, \<lparr>first = True, closed = True\<rparr>, \<lparr>out = postamble, faults = []\<rparr>)"
    by (simp add: Close_def Write_def emptySink_def)
  show ?thesis
    using h HarWriter_rejects_use_after_Close [OF h, of "''{}''" testRT emptySink] by simp
qed

text \<open>
  C2 as stated fails on the \<open>RoundTripper\<close>'s own finalize: a second \<open>Close\<close> returns nil
  and writes the closing bytes again, and an entry written after \<open>Close\<close> is accepted.
\<close>

theorem RoundTripper_Close_twice_counterexample:
  "RoundTripper_Close testRT (snd (snd (RoundTripper_Close testRT emptySink)))
     = (None, testRT, \<lparr>out = postamble @ postamble, faults = []\<rparr>)
   \<and> writeEntry testEnv testRT (request_of ''GET'' [] None)
        (response_of ''text/plain'' (NewBuffer ''hello'')) zeroEntry
        (snd (snd (RoundTripper_Close testRT emptySink)))
     = (None, testRT\<lparr>rt_first := False\<rparr>, \<lparr>out = postamble @ ''{}'', faults = []\<rparr>)"
  by (simp add: RoundTripper_Close_def writeEntry_def Write_def emptySink_def testRT_def
      testEnv_def DefaultRewrite_def)

subsection \<open>Evaluations of the library model\<close>

lemma ParseMediaType_empty: "ParseMediaType params [] = Inl (Err ''mime: no media type'')"
  by (simp add: ParseMediaType_def TrimSpace_def checkMediaTypeDisposition_def consumeToken_def)


lemma ParseMediaType_text_plain: "ParseMediaType (\<lambda>rest. None) ''text/plain'' = Inr ''text/plain''"
  by code_simp

lemma ParseMediaType_octet_stream:
  "ParseMediaType (\<lambda>rest. None) ''application/octet-stream'' = Inr ''application/octet-stream''"
  by code_simp




lemma testEnv_simps:
  "mediaParams testEnv = (\<lambda>rest. None)"
  "request_Cookies testEnv = (\<lambda>r. [])"
  "response_Cookies testEnv = (\<lambda>r. [])"
  "Marshal_Entry testEnv = (\<lambda>e. Some ''{}'')"
  "startNow testEnv = 1000"
  "endNow testEnv = 2000"
  by (simp_all add: testEnv_def)

subsection \<open>RoundTrip, case by case\<close>

lemma RoundTrip_pre_Failed:
  "preRoundTrip env request zeroEntry = Failed e
   \<Longrightarrow> RoundTrip env rt request w = (Return None (Some e), rt, w)"
  by (simp add: RoundTrip_def)

lemma RoundTrip_pre_Panicked:
  "preRoundTrip env request zeroEntry = Panicked \<Longrightarrow> RoundTrip env rt request w = (Panic, rt, w)"
  by (simp add: RoundTrip_def)

lemma preRoundTrip_no_body:
  "Body request = None \<Longrightarrow> \<exists>entry. preRoundTrip env request zeroEntry = Done (request, entry)"
  by (simp add: preRoundTrip_def captureBody_def)

subsection \<open>Failed exchanges\<close>

text \<open>
  C3. When pre-capture has passed and the inner transport returns an error, \<open>RoundTrip\<close>
  returns a nil response and that very error; the \<open>RoundTripper\<close>, with its \<open>first\<close> flag,
  is as before, and so is the sink: nothing, not even a part of an entry, is written.
  The only change is that the request has been handed to the transport.
\<close>

theorem transport_error_propagates:
  assumes "preRoundTrip env request zeroEntry = Done (request1, entry)"
    and "inner rt request1 (newClientTracer (startNow env)) = (Inl e, trace1)"
  shows "RoundTrip env rt request w
           = (Return None (Some e), rt, w\<lparr>sent := sent w @ [request1]\<rparr>)
       \<and> w_sink (snd (snd (RoundTrip env rt request w))) = w_sink w"
  using assms by (simp add: RoundTrip_def)

theorem transport_error_propagates_witness:
  "(\<exists>entry. preRoundTrip testEnv (request_of ''GET'' [] None) zeroEntry
              = Done (request_of ''GET'' [] None, entry))
   \<and> RoundTrip testEnv (testRT\<lparr>inner := failing (Err ''dial tcp: no such host'')\<rparr>)
        (request_of ''GET'' [] None) emptyWorld
     = (Return None (Some (Err ''dial tcp: no such host'')),
        testRT\<lparr>inner := failing (Err ''dial tcp: no such host'')\<rparr>,
        emptyWorld\<lparr>sent := [request_of ''GET'' [] None]\<rparr>)"
proof -
  obtain entry where h: "preRoundTrip testEnv (request_of ''GET'' [] None) zeroEntry
      = Done (request_of ''GET'' [] None, entry)"
    using preRoundTrip_no_body [of "request_of ''GET'' [] None" testEnv]
    by (auto simp add: request_of_def)
  have i: "inner (testRT\<lparr>inner := failing (Err ''dial tcp: no such host'')\<rparr>)
             (request_of ''GET'' [] None) (newClientTracer (startNow testEnv))
           = (Inl (Err ''dial tcp: no such host''), newClientTracer (startNow testEnv))"
    by (simp add: failing_def)
  show ?thesis
    using h transport_error_propagates [OF h i, of emptyWorld] by (auto simp add: emptyWorld_def)
qed




subsection \<open>Requests without a Content-Type\<close>

text \<open>
  A request with a body and no \<open>Content-Type\<close> header never reaches the transport: when
  its \<open>GetBody\<close> is set, \<open>RoundTrip\<close> returns an error (from \<open>GetBody\<close>, from reading, or
  \<open>mime: no media type\<close>); when its \<open>GetBody\<close> is nil, \<open>RoundTrip\<close> panics.
\<close>

lemma body_without_Content_Type_is_refused:
  assumes "Body request = Some b" and "Get (Header request) ''Content-Type'' = []"
  shows "(GetBody request \<noteq> None
            \<longrightarrow> (\<exists>e. RoundTrip env rt request w = (Return None (Some e), rt, w)))
       \<and> (GetBody request = None \<longrightarrow> RoundTrip env rt request w = (Panic, rt, w))"
proof -
  have "GetBody request \<noteq> None \<Longrightarrow> \<exists>e. captureBody env request = Failed e"
    using assms
    by (auto simp add: captureBody_def Let_def ParseMediaType_empty split: sum.splits)
  then have a: "GetBody request \<noteq> None \<Longrightarrow> \<exists>e. preRoundTrip env request zeroEntry = Failed e"
    by (auto simp add: preRoundTrip_def)
  have "GetBody request = None \<Longrightarrow> captureBody env request = Panicked"
    using assms by (simp add: captureBody_def)
  then have b: "GetBody request = None \<Longrightarrow> preRoundTrip env request zeroEntry = Panicked"
    by (simp add: preRoundTrip_def)
  show ?thesis using a b RoundTrip_pre_Failed RoundTrip_pre_Panicked by blast
qed

text \<open>
  C9, at the input where the code departs from it. The claim has every request with a
  body and no \<open>Content-Type\<close> header end in an error returned. A request built over a
  reader that cannot be replayed has a body and a nil \<open>GetBody\<close>; \<open>preRoundTrip\<close> calls
  \<open>r.GetBody()\<close> without a nil check, and \<open>RoundTrip\<close> panics instead of returning an
  error. Nothing is sent and nothing is written.
\<close>

theorem nil_GetBody_panics:
  "Body ((request_of ''POST'' [] (Some ''payload''))\<lparr>GetBody := None\<rparr>) \<noteq> None
   \<and> Get (Header ((request_of ''POST'' [] (Some ''payload''))\<lparr>GetBody := None\<rparr>)) ''Content-Type'' = []
   \<and> RoundTrip testEnv testRT ((request_of ''POST'' [] (Some ''payload''))\<lparr>GetBody := None\<rparr>)
        emptyWorld = (Panic, testRT, emptyWorld)"
  by (simp add: RoundTrip_def preRoundTrip_def captureBody_def request_of_def Get_def)

subsection \<open>Post-capture failures\<close>

text \<open>
  C10 (amended). When pre-capture has passed and the inner transport has returned a
  response, and post-capture fails, \<open>RoundTrip\<close> returns that response and a non-nil
  error, writes no entry and leaves the \<open>RoundTripper\<close> as it was. When the failure is
  that the response's \<open>Content-Type\<close> does not parse as a media type (as when the header
  is missing), the body has been read to its end and replaced by a buffer of the same
  bytes, and the error is wrapped as \<open>parsing response Content-Type\<close>. When the failure
  is that reading the body fails, the read error is returned as it is and the body is
  not replaced.
\<close>

theorem post_capture_failure:
  assumes "preRoundTrip env request zeroEntry = Done (request1, entry)"
    and "inner rt request1 (newClientTracer (startNow env)) = (Inr response, trace1)"
  shows "(\<forall>bs e. ReadAll (resp_Body response) = Inr bs
            \<longrightarrow> ParseMediaType (mediaParams env) (Get (resp_Header response) ''Content-Type'') = Inl e
            \<longrightarrow> RoundTrip env rt request w
                  = (Return (Some (response\<lparr>resp_Body := NewBuffer bs\<rparr>))
                       (Some (Wrap ''parsing response Content-Type'' e)),
                     rt, w\<lparr>sent := sent w @ [request1]\<rparr>))
       \<and> (\<forall>e. ReadAll (resp_Body response) = Inl e
            \<longrightarrow> RoundTrip env rt request w
                  = (Return (Some (response\<lparr>resp_Body := drained (resp_Body response)\<rparr>)) (Some e),
                     rt, w\<lparr>sent := sent w @ [request1]\<rparr>))"
  using assms by (simp add: RoundTrip_def postRoundTrip_def)


theorem post_capture_failure_witness:
  "(\<exists>entry. preRoundTrip testEnv (request_of ''GET'' [] None) zeroEntry
              = Done (request_of ''GET'' [] None, entry))
   \<and> ReadAll (resp_Body (response_of [] (NewBuffer ''hello''))) = Inr ''hello''
   \<and> ParseMediaType (mediaParams testEnv)
         (Get (resp_Header (response_of [] (NewBuffer ''hello''))) ''Content-Type'')
       = Inl (Err ''mime: no media type'')
   \<and> RoundTrip testEnv (testRT\<lparr>inner := answering (response_of [] (NewBuffer ''hello''))\<rparr>)
        (request_of ''GET'' [] None) emptyWorld
     = (Return (Some ((response_of [] (NewBuffer ''hello''))\<lparr>resp_Body := NewBuffer ''hello''\<rparr>))
          (Some (Wrap ''parsing response Content-Type'' (Err ''mime: no media type''))),
        testRT\<lparr>inner := answering (response_of [] (NewBuffer ''hello''))\<rparr>,
        emptyWorld\<lparr>sent := [request_of ''GET'' [] None]\<rparr>)
   \<and> ReadAll (resp_Body (response_of [] \<lparr>data = ''hel'', rerr = Some (Err ''unexpected EOF'')\<rparr>))
       = Inl (Err ''unexpected EOF'')
   \<and> RoundTrip testEnv
        (testRT\<lparr>inner := answering (response_of []
                    \<lparr>data = ''hel'', rerr = Some (Err ''unexpected EOF'')\<rparr>)\<rparr>)
        (request_of ''GET'' [] None) emptyWorld
     = (Return (Some ((response_of [] \<lparr>data = ''hel'', rerr = Some (Err ''unexpected EOF'')\<rparr>)
                   \<lparr>resp_Body := drained \<lparr>data = ''hel'', rerr = Some (Err ''unexpected EOF'')\<rparr>\<rparr>))
          (Some (Err ''unexpected EOF'')),
        testRT\<lparr>inner := answering (response_of []
                    \<lparr>data = ''hel'', rerr = Some (Err ''unexpected EOF'')\<rparr>)\<rparr>,
        emptyWorld\<lparr>sent := [request_of ''GET'' [] None]\<rparr>)"
proof -
  let ?resp = "response_of [] (NewBuffer ''hello'')"
  let ?rt = "testRT\<lparr>inner := answering ?resp\<rparr>"
  let ?resp2 = "response_of [] \<lparr>data = ''hel'', rerr = Some (Err ''unexpected EOF'')\<rparr>"
  let ?rt2 = "testRT\<lparr>inner := answering ?resp2\<rparr>"
  obtain entry where h: "preRoundTrip testEnv (request_of ''GET'' [] None) zeroEntry
      = Done (request_of ''GET'' [] None, entry)"
    using preRoundTrip_no_body [of "request_of ''GET'' [] None" testEnv]
    by (auto simp add: request_of_def)
  have i: "inner ?rt (request_of ''GET'' [] None) (newClientTracer (startNow testEnv))
           = (Inr ?resp, newClientTracer (startNow testEnv))"
    by (simp add: answering_def)
  have i2: "inner ?rt2 (request_of ''GET'' [] None) (newClientTracer (startNow testEnv))
           = (Inr ?resp2, newClientTracer (startNow testEnv))"
    by (simp add: answering_def)
  have r: "ReadAll (resp_Body ?resp) = Inr ''hello''"
    by (simp add: response_of_def ReadAll_def NewBuffer_def)
  have r2: "ReadAll (resp_Body ?resp2) = Inl (Err ''unexpected EOF'')"
    by (simp add: response_of_def ReadAll_def)
  have rb2: "resp_Body ?resp2 = \<lparr>data = ''hel'', rerr = Some (Err ''unexpected EOF'')\<rparr>"
    by (simp add: response_of_def)
  have m: "ParseMediaType (mediaParams testEnv) (Get (resp_Header ?resp) ''Content-Type'')
           = Inl (Err ''mime: no media type'')"
    by (simp add: response_of_def Get_def ParseMediaType_empty)
  have a: "RoundTrip testEnv ?rt (request_of ''GET'' [] None) emptyWorld
     = (Return (Some (?resp\<lparr>resp_Body := NewBuffer ''hello''\<rparr>))
          (Some (Wrap ''parsing response Content-Type'' (Err ''mime: no media type''))),
        ?rt, emptyWorld\<lparr>sent := [request_of ''GET'' [] None]\<rparr>)"
    using r m post_capture_failure [OF h i, of emptyWorld] by (simp add: emptyWorld_def)
  have b: "RoundTrip testEnv ?rt2 (request_of ''GET'' [] None) emptyWorld
     = (Return (Some (?resp2\<lparr>resp_Body := drained \<lparr>data = ''hel'', rerr = Some (Err ''unexpected EOF'')\<rparr>\<rparr>))
          (Some (Err ''unexpected EOF'')),
        ?rt2, emptyWorld\<lparr>sent := [request_of ''GET'' [] None]\<rparr>)"
    using r2 rb2 post_capture_failure [OF h i2, of emptyWorld] by (simp add: emptyWorld_def)
  show ?thesis using h r m a r2 b by blast
qed

text \<open>
  C10 as stated fails when post-capture fails in reading the body: the response comes
  back with the read error, its body consumed and not replaced by a copy of its bytes.
\<close>

theorem response_read_failure_counterexample:
  "RoundTrip testEnv
     (testRT\<lparr>inner := answering (response_of ''text/plain''
                 \<lparr>data = ''hel'', rerr = Some (Err ''unexpected EOF'')\<rparr>)\<rparr>)
     (request_of ''GET'' [] None) emptyWorld
   = (Return (Some ((response_of ''text/plain'' \<lparr>data = ''hel'', rerr = Some (Err ''unexpected EOF'')\<rparr>)
                 \<lparr>resp_Body := \<lparr>data = [], rerr = Some (Err ''unexpected EOF'')\<rparr>\<rparr>))
        (Some (Err ''unexpected EOF'')),
      testRT\<lparr>inner := answering (response_of ''text/plain''
                 \<lparr>data = ''hel'', rerr = Some (Err ''unexpected EOF'')\<rparr>)\<rparr>,
      emptyWorld\<lparr>sent := [request_of ''GET'' [] None]\<rparr>)
   \<and> \<lparr>data = [], rerr = Some (Err ''unexpected EOF'')\<rparr> \<noteq> NewBuffer ''hel''"
  by (simp add: RoundTrip_def preRoundTrip_def captureBody_def request_of_def postRoundTrip_def
      answering_def response_of_def ReadAll_def drained_def emptyWorld_def NewBuffer_def)

subsection \<open>The response's content\<close>

text \<open>The model of \<open>base64.StdEncoding\<close> on a known value, and the length it always has.\<close>

lemma EncodeToString_hello: "EncodeToString ''hello'' = ''aGVsbG8=''"
  by (simp add: b64_def b64chars_def Let_def)

lemma EncodeToString_length: "length (EncodeToString bs) = 4 * ((length bs + 2) div 3)"
  by (induction bs rule: EncodeToString.induct) (simp_all add: Let_def, arith)


text \<open>
  C5. When \<open>postRoundTrip\<close> succeeds, the response body was read in full and the
  \<open>Content-Type\<close> header parsed to a media type; the entry's response has a content;
  if the media type begins with \<open>text/\<close> the content's \<open>Text\<close> is the body's bytes as
  they are and \<open>Encoding\<close> is empty, and otherwise \<open>Text\<close> is the standard base64
  encoding of the body's bytes and \<open>Encoding\<close> is \<open>base64\<close>.
\<close>

theorem content_text_and_encoding:
  assumes "postRoundTrip env resp entry trace = (None, resp1, entry1, trace1)"
  shows "\<exists>bs mediaType r c.
           ReadAll (resp_Body resp) = Inr bs
         \<and> ParseMediaType (mediaParams env) (Get (resp_Header resp) ''Content-Type'') = Inr mediaType
         \<and> Entry_Response entry1 = Some r \<and> Response_Content r = Some c
         \<and> (prefix ''text/'' mediaType \<longrightarrow> Text c = bs \<and> Encoding c = [])
         \<and> (\<not> prefix ''text/'' mediaType
              \<longrightarrow> Text c = EncodeToString bs \<and> Encoding c = ''base64'')"
proof (cases "ReadAll (resp_Body resp)")
  case (Inl e)
  with assms show ?thesis by (simp add: postRoundTrip_def)
next
  case (Inr bs)
  note rd = this
  show ?thesis
  proof (cases "ParseMediaType (mediaParams env) (Get (resp_Header resp) ''Content-Type'')")
    case (Inl e)
    with assms rd show ?thesis by (simp add: postRoundTrip_def)
  next
    case (Inr mediaType)
    have "\<exists>r c. Entry_Response entry1 = Some r \<and> Response_Content r = Some c
            \<and> Text c = (if prefix ''text/'' mediaType then bs else EncodeToString bs)
            \<and> Encoding c = (if prefix ''text/'' mediaType then [] else ''base64'')"
      using assms rd Inr by (auto simp add: postRoundTrip_def Let_def split: if_splits)
    then show ?thesis using rd Inr by (cases "prefix ''text/'' mediaType") auto
  qed
qed


lemma postRoundTrip_text_plain:
  "postRoundTrip testEnv (response_of ''text/plain'' (NewBuffer ''hello'')) zeroEntry (newClientTracer 1000)
   = (None, response_of ''text/plain'' (NewBuffer ''hello''),
      fst (snd (snd (postRoundTrip testEnv (response_of ''text/plain'' (NewBuffer ''hello'')) zeroEntry (newClientTracer 1000)))),
      snd (snd (snd (postRoundTrip testEnv (response_of ''text/plain'' (NewBuffer ''hello'')) zeroEntry (newClientTracer 1000)))))"
  by (simp add: postRoundTrip_def response_of_def ReadAll_def NewBuffer_def Get_def testEnv_simps
      ParseMediaType_text_plain Let_def)

lemma postRoundTrip_octet_stream:
  "postRoundTrip testEnv (response_of ''application/octet-stream'' (NewBuffer ''hello'')) zeroEntry (newClientTracer 1000)
   = (None, response_of ''application/octet-stream'' (NewBuffer ''hello''),
      fst (snd (snd (postRoundTrip testEnv (response_of ''application/octet-stream'' (NewBuffer ''hello'')) zeroEntry (newClientTracer 1000)))),
      snd (snd (snd (postRoundTrip testEnv (response_of ''application/octet-stream'' (NewBuffer ''hello'')) zeroEntry (newClientTracer 1000)))))"
  by (simp add: postRoundTrip_def response_of_def ReadAll_def NewBuffer_def Get_def testEnv_simps
      ParseMediaType_octet_stream Let_def)

theorem content_text_and_encoding_witness:
  "fst (postRoundTrip testEnv (response_of ''text/plain'' (NewBuffer ''hello'')) zeroEntry
         (newClientTracer 1000)) = None
   \<and> (\<exists>r c. Entry_Response (fst (snd (snd (postRoundTrip testEnv
                 (response_of ''text/plain'' (NewBuffer ''hello'')) zeroEntry
                 (newClientTracer 1000))))) = Some r
          \<and> Response_Content r = Some c \<and> Text c = ''hello'' \<and> Encoding c = [])
   \<and> fst (postRoundTrip testEnv (response_of ''application/octet-stream'' (NewBuffer ''hello''))
         zeroEntry (newClientTracer 1000)) = None
   \<and> (\<exists>r c. Entry_Response (fst (snd (snd (postRoundTrip testEnv
                 (response_of ''application/octet-stream'' (NewBuffer ''hello'')) zeroEntry
                 (newClientTracer 1000))))) = Some r
          \<and> Response_Content r = Some c \<and> Text c = ''aGVsbG8='' \<and> Encoding c = ''base64'')"
proof -
  have r1: "ReadAll (resp_Body (response_of ''text/plain'' (NewBuffer ''hello''))) = Inr ''hello''"
    by (simp add: response_of_def ReadAll_def NewBuffer_def)
  have m1: "ParseMediaType (mediaParams testEnv)
              (Get (resp_Header (response_of ''text/plain'' (NewBuffer ''hello''))) ''Content-Type'')
            = Inr ''text/plain''"
    by (simp add: response_of_def Get_def testEnv_simps ParseMediaType_text_plain)
  have r2: "ReadAll (resp_Body (response_of ''application/octet-stream'' (NewBuffer ''hello'')))
            = Inr ''hello''"
    by (simp add: response_of_def ReadAll_def NewBuffer_def)
  have m2: "ParseMediaType (mediaParams testEnv)
              (Get (resp_Header (response_of ''application/octet-stream'' (NewBuffer ''hello'')))
                 ''Content-Type'')
            = Inr ''application/octet-stream''"
    by (simp add: response_of_def Get_def testEnv_simps ParseMediaType_octet_stream)
  have a: "\<exists>r c. Entry_Response (fst (snd (snd (postRoundTrip testEnv
                 (response_of ''text/plain'' (NewBuffer ''hello'')) zeroEntry
                 (newClientTracer 1000))))) = Some r
          \<and> Response_Content r = Some c \<and> Text c = ''hello'' \<and> Encoding c = []"
    using content_text_and_encoding [OF postRoundTrip_text_plain] r1 m1 by auto
  have b: "\<exists>r c. Entry_Response (fst (snd (snd (postRoundTrip testEnv
                 (response_of ''application/octet-stream'' (NewBuffer ''hello'')) zeroEntry
                 (newClientTracer 1000))))) = Some r
          \<and> Response_Content r = Some c \<and> Text c = ''aGVsbG8='' \<and> Encoding c = ''base64''"
    using content_text_and_encoding [OF postRoundTrip_octet_stream] r2 m2 EncodeToString_hello
    by auto
  have c: "fst (postRoundTrip testEnv (response_of ''text/plain'' (NewBuffer ''hello'')) zeroEntry
         (newClientTracer 1000)) = None"
    using postRoundTrip_text_plain by (metis fst_conv)
  have d: "fst (postRoundTrip testEnv (response_of ''application/octet-stream'' (NewBuffer ''hello''))
         zeroEntry (newClientTracer 1000)) = None"
    using postRoundTrip_octet_stream by (metis fst_conv)
  show ?thesis using a b c d by blast
qed

subsection \<open>The rewrite hook\<close>

lemma Write_no_faults:
  "faults s = [] \<Longrightarrow> Write s p = (None, s\<lparr>out := out s @ p\<rparr>)"
  by (simp add: Write_def)

lemma postRoundTrip_success:
  assumes "ReadAll (resp_Body resp) = Inr bs"
    and "ParseMediaType (mediaParams env) (Get (resp_Header resp) ''Content-Type'') = Inr mediaType"
  shows "\<exists>entry1 trace2. postRoundTrip env resp entry trace
           = (None, resp\<lparr>resp_Body := NewBuffer bs\<rparr>, entry1, trace2)"
  using assms by (simp add: postRoundTrip_def Let_def split: prod.splits)

text \<open>
  C7 (amended). In an exchange where pre-capture, the inner transport and post-capture
  have all succeeded: if the rewrite hook returns nil, nothing is written, \<open>RoundTrip\<close>
  returns the response and a nil error, and the \<open>RoundTripper\<close>, with its \<open>first\<close> flag,
  is unchanged; if the hook returns a slice that is not nil, whatever its length, and
  the sink accepts the writes, exactly those bytes are appended to the sink, behind
  the separator unless \<open>first\<close> was set, and \<open>first\<close> is cleared.
\<close>

theorem rewrite_hook_result:
  assumes "preRoundTrip env request zeroEntry = Done (request1, entry)"
    and "inner rt request1 (newClientTracer (startNow env)) = (Inr response, trace1)"
    and "postRoundTrip env response entry trace1 = (None, response1, entry1, trace2)"
  shows "(opts_Rewrite rt request1 response1 (Marshal_Entry env entry1) = None
            \<longrightarrow> RoundTrip env rt request w
                  = (Return (Some response1) None, rt, w\<lparr>sent := sent w @ [request1]\<rparr>))
       \<and> (\<forall>entryJson. opts_Rewrite rt request1 response1 (Marshal_Entry env entry1) = Some entryJson
            \<longrightarrow> faults (w_sink w) = []
            \<longrightarrow> RoundTrip env rt request w
                  = (Return (Some response1) None, rt\<lparr>rt_first := False\<rparr>,
                     w\<lparr>sent := sent w @ [request1],
                       w_sink := (w_sink w)\<lparr>out := out (w_sink w)
                                   @ (if rt_first rt then [] else separator) @ entryJson\<rparr>\<rparr>))"
  using assms
  by (simp add: RoundTrip_def writeEntry_def Write_no_faults)


theorem rewrite_hook_result_witness:
  "(\<exists>entry. preRoundTrip testEnv (request_of ''GET'' [] None) zeroEntry
              = Done (request_of ''GET'' [] None, entry))
   \<and> RoundTrip testEnv (testRT\<lparr>opts_Rewrite := suppressRewrite\<rparr>) (request_of ''GET'' [] None)
        emptyWorld
     = (Return (Some (response_of ''text/plain'' (NewBuffer ''hello''))) None,
        testRT\<lparr>opts_Rewrite := suppressRewrite\<rparr>,
        emptyWorld\<lparr>sent := [request_of ''GET'' [] None]\<rparr>)
   \<and> faults (w_sink emptyWorld) = []
   \<and> RoundTrip testEnv (testRT\<lparr>rt_first := False\<rparr>) (request_of ''GET'' [] None) emptyWorld
     = (Return (Some (response_of ''text/plain'' (NewBuffer ''hello''))) None,
        testRT\<lparr>rt_first := False\<rparr>,
        \<lparr>w_sink = \<lparr>out = separator @ ''{}'', faults = []\<rparr>, sent = [request_of ''GET'' [] None]\<rparr>)"
proof -
  let ?req = "request_of ''GET'' [] None"
  let ?resp = "response_of ''text/plain'' (NewBuffer ''hello'')"
  obtain entry where h: "preRoundTrip testEnv ?req zeroEntry = Done (?req, entry)"
    using preRoundTrip_no_body [of ?req testEnv] by (auto simp add: request_of_def)
  have i1: "inner (testRT\<lparr>opts_Rewrite := suppressRewrite\<rparr>) ?req (newClientTracer (startNow testEnv))
            = (Inr ?resp, newClientTracer (startNow testEnv))"
    by (simp add: testRT_def testEnv_def answering_def)
  have i2: "inner (testRT\<lparr>rt_first := False\<rparr>) ?req (newClientTracer (startNow testEnv))
            = (Inr ?resp, newClientTracer (startNow testEnv))"
    by (simp add: testRT_def testEnv_def answering_def)
  have r: "ReadAll (resp_Body ?resp) = Inr ''hello''"
    by (simp add: response_of_def ReadAll_def NewBuffer_def)
  have m: "ParseMediaType (mediaParams testEnv) (Get (resp_Header ?resp) ''Content-Type'')
           = Inr ''text/plain''"
    by (simp add: response_of_def Get_def testEnv_simps ParseMediaType_text_plain)
  have same: "?resp\<lparr>resp_Body := NewBuffer ''hello''\<rparr> = ?resp"
    by (simp add: response_of_def)
  obtain entry1 trace2 where p:
    "postRoundTrip testEnv ?resp entry (newClientTracer (startNow testEnv))
       = (None, ?resp, entry1, trace2)"
    using postRoundTrip_success [OF r m, of entry "newClientTracer (startNow testEnv)"] same
    by auto
  have a: "RoundTrip testEnv (testRT\<lparr>opts_Rewrite := suppressRewrite\<rparr>) ?req emptyWorld
     = (Return (Some ?resp) None, testRT\<lparr>opts_Rewrite := suppressRewrite\<rparr>,
        emptyWorld\<lparr>sent := [?req]\<rparr>)"
    using rewrite_hook_result [OF h i1 p, of emptyWorld]
    by (simp add: suppressRewrite_def emptyWorld_def)
  have f: "faults (w_sink emptyWorld) = []" by (simp add: emptyWorld_def emptySink_def)
  have b: "RoundTrip testEnv (testRT\<lparr>rt_first := False\<rparr>) ?req emptyWorld
     = (Return (Some ?resp) None, testRT\<lparr>rt_first := False\<rparr>,
        \<lparr>w_sink = \<lparr>out = separator @ ''{}'', faults = []\<rparr>, sent = [?req]\<rparr>)"
    using f rewrite_hook_result [OF h i2 p, of emptyWorld]
    by (simp add: testRT_def DefaultRewrite_def testEnv_simps emptyWorld_def emptySink_def)
  show ?thesis using h a f b by blast
qed

text \<open>
  C7 as stated fails for a hook whose result is empty without being nil (such as
  \<open>json.RawMessage{}\<close>): the source tests \<open>entryJson == nil\<close>, so the write is not
  suppressed. On the first exchange the \<open>first\<close> flag is cleared; on a later one the
  separator is written.
\<close>

theorem empty_rewrite_result_counterexample:
  "emptyRewrite (request_of ''GET'' [] None) (response_of ''text/plain'' (NewBuffer ''hello''))
     (Some ''{}'') = Some []
   \<and> RoundTrip testEnv (testRT\<lparr>opts_Rewrite := emptyRewrite\<rparr>) (request_of ''GET'' [] None)
        emptyWorld
     = (Return (Some (response_of ''text/plain'' (NewBuffer ''hello''))) None,
        testRT\<lparr>opts_Rewrite := emptyRewrite, rt_first := False\<rparr>,
        \<lparr>w_sink = \<lparr>out = [], faults = []\<rparr>, sent = [request_of ''GET'' [] None]\<rparr>)
   \<and> rt_first (testRT\<lparr>opts_Rewrite := emptyRewrite\<rparr>)
   \<and> RoundTrip testEnv (testRT\<lparr>opts_Rewrite := emptyRewrite, rt_first := False\<rparr>)
        (request_of ''GET'' [] None) emptyWorld
     = (Return (Some (response_of ''text/plain'' (NewBuffer ''hello''))) None,
        testRT\<lparr>opts_Rewrite := emptyRewrite, rt_first := False\<rparr>,
        \<lparr>w_sink = \<lparr>out = separator, faults = []\<rparr>, sent = [request_of ''GET'' [] None]\<rparr>)"
  by (simp add: RoundTrip_def preRoundTrip_def captureBody_def request_of_def postRoundTrip_def
      writeEntry_def Write_def testRT_def testEnv_def answering_def response_of_def ReadAll_def
      NewBuffer_def Get_def ParseMediaType_text_plain emptyRewrite_def emptyWorld_def
      emptySink_def Let_def)

subsection \<open>Timings\<close>

lemma Sub_nonneg: "u \<le> t \<Longrightarrow> 0 \<le> Sub t u"
  by (simp add: Sub_def minDuration_def maxDuration_def)

text \<open>
  When the transport has reported every event, in the order of an exchange, the four
  unguarded fields are not negative and the three guarded ones are not negative or
  are the sentinel.
\<close>

lemma timingsOf_ordered:
  assumes "startAt t \<le> connStart t" "connStart t \<le> connObtained t"
    "connObtained t \<le> writeRequest t" "writeRequest t \<le> firstResponseByte t"
    "firstResponseByte t \<le> endAt t" "dnsStart t \<le> dnsEnd t"
    "tlsHandshakeStart t \<le> tlsHandshakeEnd t"
  shows "0 \<le> Blocked (timingsOf t) \<and> 0 \<le> Send (timingsOf t) \<and> 0 \<le> Wait (timingsOf t)
       \<and> 0 \<le> Receive (timingsOf t)
       \<and> (0 \<le> DNS (timingsOf t) \<or> DNS (timingsOf t) = - 1)
       \<and> (0 \<le> Connect (timingsOf t) \<or> Connect (timingsOf t) = - 1)
       \<and> (0 \<le> SSL (timingsOf t) \<or> SSL (timingsOf t) = - 1)"
  using assms by (simp add: timingsOf_def Let_def Sub_nonneg)

text \<open>
  C8, at the input where the code departs from it. The claim has every field of
  \<open>Timings\<close> not negative or equal to the sentinel \<open>-1\<close>, and \<open>-1\<close> exactly for a phase
  that was not observed. When the transport reports no connection event (any transport
  that does not call the trace hooks), \<open>connStart\<close> is still the zero \<open>Time\<close>:
  \<open>postRoundTrip\<close> guards \<open>Connect\<close> with \<open>connStart.IsZero()\<close> but computes \<open>Blocked\<close> from
  the same \<open>connStart\<close> unguarded. With the clock of the year 2025, \<open>Blocked\<close> is the
  least \<open>Duration\<close>, which is negative and not \<open>-1\<close>; \<open>Send\<close>, \<open>Wait\<close> and \<open>Receive\<close> are
  not \<open>-1\<close> either, though their phases were not observed.
\<close>

theorem Blocked_negative_without_GetConn:
  "Entry_Timings (fst (snd (snd (postRoundTrip
       (testEnv\<lparr>startNow := 63897465600000000000, endNow := 63897465600005000000\<rparr>)
       (response_of ''text/plain'' (NewBuffer ''hello'')) zeroEntry
       (newClientTracer 63897465600000000000)))))
   = Some \<lparr>Blocked = - 9223372036854775808, DNS = - 1, Connect = - 1, Send = 0, Wait = 0,
           Receive = 9223372036854775807, SSL = - 1\<rparr>"
  by (simp add: postRoundTrip_def response_of_def ReadAll_def NewBuffer_def Get_def testEnv_def
      ParseMediaType_text_plain Let_def timingsOf_def newClientTracer_def Sub_def IsZero_def
      minDuration_def maxDuration_def)

subsection \<open>Request bodies\<close>















subsection \<open>The framed archive\<close>

























end
